theory Spec2Isabelle
  imports Main
begin

section \<open>SimpleVector: a shallow embedding of simple_vector.h\<close>

text \<open>
  The class template \<open>SimpleVector<Type>\<close> owns one \<open>ArrayPtr<Type>\<close> and two counters.
  The model keeps the three members; a name cannot end in an underscore here, so
  \<open>simple_vector_\<close>, \<open>size_\<close> and \<open>capacity_\<close> are written \<open>simple_vector_m\<close>,
  \<open>size_m\<close> and \<open>capacity_m\<close>.  Likewise \<open>last\<close> and \<open>size\<close> are written \<open>last'\<close>
  and \<open>size'\<close>.  The block owned by the \<open>ArrayPtr\<close> is a list whose length is the
  number of slots that were really allocated, so the counter \<open>capacity_\<close> and the
  allocated size are two separate things, as they are in the class.

  Iterators are pointers into the block; the model writes them as offsets from
  \<open>simple_vector_.Get()\<close>, so a pointer below the start of the block does not exist.

  Counters are natural numbers.  A counter grows by one, or to the size of a block that
  \<open>new\<close> has just delivered, and no block has \<open>2 ^ 63\<close> slots, so the \<open>size_t\<close>
  arithmetic of the class (\<open>size_ + 1\<close>, \<open>capacity_ * 2\<close>, \<open>size_ + new_size\<close>) does
  not wrap.

  The element arguments of \<open>PushBack\<close> and \<open>Insert\<close> are references (\<open>const Type&\<close>,
  \<open>Type&&\<close>) and may refer to an element of the vector itself, as in
  \<open>v.PushBack(v[0])\<close>; they are modelled as references, see \<open>arg_ref\<close> below.  The
  \<open>value\<close> of the sized constructor cannot refer to the block under construction and is
  passed by value.
\<close>

subsection \<open>Outcomes\<close>

text \<open>
  \<open>OutOfRange\<close> is the exception \<open>std::out_of_range\<close>.  \<open>AssertionFailed\<close> is a failing
  \<open>assert\<close> (the header includes \<open><cassert>\<close> and does not define \<open>NDEBUG\<close>).
  \<open>OutOfBounds\<close> is an access outside the allocated block, or a pointer range whose end
  cannot be reached: undefined behaviour in C++, where the model stops.
  \<open>UseAfterFree\<close> is a read through a reference into a block that has been released,
  undefined behaviour as well.  \<open>BadAlloc\<close> is a failing allocation.
\<close>

datatype error = OutOfRange | AssertionFailed | OutOfBounds | UseAfterFree | BadAlloc

definition bind_e :: "error + 'a \<Rightarrow> ('a \<Rightarrow> error + 'b) \<Rightarrow> error + 'b" where
  "bind_e m f = (case m of Inl e \<Rightarrow> Inl e | Inr x \<Rightarrow> f x)"

subsection \<open>The element type\<close>

text \<open>
  What the template needs from \<open>Type\<close> and from the allocator:
  \<open>Type_default\<close> is \<open>Type()\<close>; \<open>moved_from x\<close> is the state in which \<open>std::move\<close>
  leaves an object that held \<open>x\<close>; \<open>operator_new n\<close> is \<open>new Type[n]\<close>, which either
  fails (\<open>None\<close>) or delivers a block whose slot \<open>i\<close> holds \<open>f i\<close> (\<open>Some f\<close>), a value
  the program has not chosen.  It is asked for blocks of at least one slot only.
\<close>

record 'a Type_env =
  Type_default :: 'a
  moved_from :: "'a \<Rightarrow> 'a"
  operator_new :: "nat \<Rightarrow> (nat \<Rightarrow> 'a) option"

subsection \<open>ArrayPtr\<close>

text \<open>
  Modelled from the spec: \<open>array_ptr.h\<close> is not among the sources.  The spec's buffer
  owner allocates storage for exactly \<open>capacity\<close> elements (capacity 0 is valid),
  gives unchecked access to slot \<open>i\<close> (the caller must guarantee \<open>i < capacity\<close>) and
  swaps blocks without copying elements.
\<close>

definition ArrayPtr_new :: "'a Type_env \<Rightarrow> nat \<Rightarrow> error + 'a list" where
  "ArrayPtr_new E n =
     (if n = 0 then Inr []
      else case operator_new E n of
             None \<Rightarrow> Inl BadAlloc
           | Some f \<Rightarrow> Inr (map f [0..<n]))"

definition ArrayPtr_index :: "'a list \<Rightarrow> nat \<Rightarrow> error + 'a" where
  "ArrayPtr_index block i = (if i < length block then Inr (block ! i) else Inl OutOfBounds)"

definition ArrayPtr_assign :: "'a list \<Rightarrow> nat \<Rightarrow> 'a \<Rightarrow> error + 'a list" where
  "ArrayPtr_assign block i x =
     (if i < length block then Inr (block[i := x]) else Inl OutOfBounds)"

subsection \<open>The algorithms of the standard library that the class calls\<close>

text \<open>
  Each algorithm is the loop \<open>while (first != last)\<close> of the standard, with a check of
  every slot it touches.  \<open>after\<close> is what the loop leaves in a slot it has read: the
  identity for \<open>std::copy\<close> and \<open>std::copy_backward\<close>, \<open>moved_from\<close> for \<open>std::move\<close>
  and \<open>std::move_backward\<close>.  A version works either between two blocks or inside one.
\<close>

function std_fill :: "'a list \<Rightarrow> nat \<Rightarrow> nat \<Rightarrow> 'a \<Rightarrow> error + 'a list" where
  "std_fill block first last' v =
     (if first = last' then Inr block
      else if first < length block then std_fill (block[first := v]) (Suc first) last' v
      else Inl OutOfBounds)"
  by pat_completeness auto
termination
  by (relation "measure (\<lambda>(block, first, last', v). length block - first)") auto

declare std_fill.simps [simp del]

function forward_loop ::
  "('a \<Rightarrow> 'a) \<Rightarrow> 'a list \<Rightarrow> nat \<Rightarrow> nat \<Rightarrow> 'a list \<Rightarrow> nat \<Rightarrow> error + ('a list \<times> 'a list)" where
  "forward_loop after src first last' dst d_first =
     (if first = last' then Inr (src, dst)
      else if first < length src \<and> d_first < length dst
        then forward_loop after (src[first := after (src ! first)]) (Suc first) last'
               (dst[d_first := src ! first]) (Suc d_first)
      else Inl OutOfBounds)"
  by pat_completeness auto
termination
  by (relation "measure (\<lambda>(after, src, first, last', dst, d_first). length src - first)") auto

declare forward_loop.simps [simp del]

function forward_loop_within ::
  "('a \<Rightarrow> 'a) \<Rightarrow> 'a list \<Rightarrow> nat \<Rightarrow> nat \<Rightarrow> nat \<Rightarrow> error + 'a list" where
  "forward_loop_within after block first last' d_first =
     (if first = last' then Inr block
      else if first < length block \<and> d_first < length block
        then forward_loop_within after
               ((block[d_first := block ! first])[first := after (block ! first)])
               (Suc first) last' (Suc d_first)
      else Inl OutOfBounds)"
  by pat_completeness auto
termination
  by (relation "measure (\<lambda>(after, block, first, last', d_first). length block - first)") auto

declare forward_loop_within.simps [simp del]

function backward_loop ::
  "('a \<Rightarrow> 'a) \<Rightarrow> 'a list \<Rightarrow> nat \<Rightarrow> nat \<Rightarrow> 'a list \<Rightarrow> nat \<Rightarrow> error + ('a list \<times> 'a list)" where
  "backward_loop after src first last' dst d_last' =
     (if first = last' then Inr (src, dst)
      else if 0 < last' \<and> last' \<le> length src \<and> 0 < d_last' \<and> d_last' \<le> length dst
        then backward_loop after (src[last' - 1 := after (src ! (last' - 1))]) first (last' - 1)
               (dst[d_last' - 1 := src ! (last' - 1)]) (d_last' - 1)
      else Inl OutOfBounds)"
  by pat_completeness auto
termination
  by (relation "measure (\<lambda>(after, src, first, last', dst, d_last'). last')") auto

declare backward_loop.simps [simp del]

function backward_loop_within ::
  "('a \<Rightarrow> 'a) \<Rightarrow> 'a list \<Rightarrow> nat \<Rightarrow> nat \<Rightarrow> nat \<Rightarrow> error + 'a list" where
  "backward_loop_within after block first last' d_last' =
     (if first = last' then Inr block
      else if 0 < last' \<and> last' \<le> length block \<and> 0 < d_last' \<and> d_last' \<le> length block
        then backward_loop_within after
               ((block[d_last' - 1 := block ! (last' - 1)])[last' - 1 := after (block ! (last' - 1))])
               first (last' - 1) (d_last' - 1)
      else Inl OutOfBounds)"
  by pat_completeness auto
termination
  by (relation "measure (\<lambda>(after, block, first, last', d_last'). last')") auto

declare backward_loop_within.simps [simp del]

definition std_copy :: "'a list \<Rightarrow> nat \<Rightarrow> nat \<Rightarrow> 'a list \<Rightarrow> nat \<Rightarrow> error + 'a list" where
  "std_copy src first last' dst d_first =
     bind_e (forward_loop (\<lambda>x. x) src first last' dst d_first) (\<lambda>(src', dst'). Inr dst')"

definition std_copy_backward ::
  "'a list \<Rightarrow> nat \<Rightarrow> nat \<Rightarrow> 'a list \<Rightarrow> nat \<Rightarrow> error + 'a list" where
  "std_copy_backward src first last' dst d_last' =
     bind_e (backward_loop (\<lambda>x. x) src first last' dst d_last') (\<lambda>(src', dst'). Inr dst')"

definition std_move ::
  "'a Type_env \<Rightarrow> 'a list \<Rightarrow> nat \<Rightarrow> nat \<Rightarrow> 'a list \<Rightarrow> nat \<Rightarrow> error + ('a list \<times> 'a list)" where
  "std_move E src first last' dst d_first = forward_loop (moved_from E) src first last' dst d_first"

definition std_move_backward ::
  "'a Type_env \<Rightarrow> 'a list \<Rightarrow> nat \<Rightarrow> nat \<Rightarrow> 'a list \<Rightarrow> nat \<Rightarrow> error + ('a list \<times> 'a list)" where
  "std_move_backward E src first last' dst d_last' =
     backward_loop (moved_from E) src first last' dst d_last'"

text \<open>
  The three-iterator \<open>std::equal\<close> requires the second block to hold as many elements
  from \<open>first2\<close> on as the first range has; otherwise the call is undefined whatever the
  elements are (an implementation may compare the two ranges as whole blocks of bytes), and
  the model stops before the loop.
\<close>

function std_equal_loop :: "'a list \<Rightarrow> nat \<Rightarrow> nat \<Rightarrow> 'a list \<Rightarrow> nat \<Rightarrow> error + bool" where
  "std_equal_loop xs first1 last1 ys first2 =
     (if first1 = last1 then Inr True
      else if first1 < length xs \<and> first2 < length ys
        then (if xs ! first1 = ys ! first2
              then std_equal_loop xs (Suc first1) last1 ys (Suc first2)
              else Inr False)
      else Inl OutOfBounds)"
  by pat_completeness auto
termination
  by (relation "measure (\<lambda>(xs, first1, last1, ys, first2). length xs - first1)") auto

declare std_equal_loop.simps [simp del]

definition std_equal :: "'a list \<Rightarrow> nat \<Rightarrow> nat \<Rightarrow> 'a list \<Rightarrow> nat \<Rightarrow> error + bool" where
  "std_equal xs first1 last1 ys first2 =
     (if first1 \<le> last1 \<and> last1 \<le> length xs \<and> first2 + (last1 - first1) \<le> length ys
      then std_equal_loop xs first1 last1 ys first2
      else Inl OutOfBounds)"

function std_lexicographical_compare ::
  "('a::ord) list \<Rightarrow> nat \<Rightarrow> nat \<Rightarrow> 'a list \<Rightarrow> nat \<Rightarrow> nat \<Rightarrow> error + bool" where
  "std_lexicographical_compare xs first1 last1 ys first2 last2 =
     (if first1 \<noteq> last1 \<and> first2 \<noteq> last2
      then (if first1 < length xs \<and> first2 < length ys
            then (if xs ! first1 < ys ! first2 then Inr True
                  else if ys ! first2 < xs ! first1 then Inr False
                  else std_lexicographical_compare xs (Suc first1) last1 ys (Suc first2) last2)
            else Inl OutOfBounds)
      else Inr (first1 = last1 \<and> first2 \<noteq> last2))"
  by pat_completeness auto
termination
  by (relation "measure (\<lambda>(xs, first1, last1, ys, first2, last2). length xs - first1)") auto

declare std_lexicographical_compare.simps [simp del]

subsection \<open>The class\<close>

record 'a SimpleVector =
  simple_vector_m :: "'a list"
  size_m :: nat
  capacity_m :: nat

text \<open>\<open>SimpleVector() noexcept = default\<close>: an empty \<open>ArrayPtr\<close> and both counters 0.\<close>

definition SimpleVector_default :: "'a SimpleVector" where
  "SimpleVector_default = \<lparr>simple_vector_m = [], size_m = 0, capacity_m = 0\<rparr>"


text \<open>
  \<open>void Fill(Iterator first, Iterator last)\<close>: the assertion, then the loop
  \<open>for (; first != last; ++first) *first = std::move(Type())\<close>.
\<close>

function Fill_loop :: "'a Type_env \<Rightarrow> 'a list \<Rightarrow> nat \<Rightarrow> nat \<Rightarrow> error + 'a list" where
  "Fill_loop E block first last' =
     (if first \<noteq> last'
      then (if first < length block
            then Fill_loop E (block[first := Type_default E]) (Suc first) last'
            else Inl OutOfBounds)
      else Inr block)"
  by pat_completeness auto
termination
  by (relation "measure (\<lambda>(E, block, first, last'). length block - first)") auto

declare Fill_loop.simps [simp del]

definition Fill :: "'a Type_env \<Rightarrow> 'a list \<Rightarrow> nat \<Rightarrow> nat \<Rightarrow> error + 'a list" where
  "Fill E block first last' =
     (if first < last' then Fill_loop E block first last' else Inl AssertionFailed)"

text \<open>\<open>SimpleVector(size_t size, const Type& value)\<close> and \<open>explicit SimpleVector(size_t size)\<close>.\<close>

definition SimpleVector_sized_value :: "'a Type_env \<Rightarrow> nat \<Rightarrow> 'a \<Rightarrow> error + 'a SimpleVector" where
  "SimpleVector_sized_value E size' v =
     bind_e (ArrayPtr_new E size') (\<lambda>block.
     bind_e (std_fill block 0 (0 + size') v) (\<lambda>block'.
     Inr \<lparr>simple_vector_m = block', size_m = size', capacity_m = size'\<rparr>))"

definition SimpleVector_sized :: "'a Type_env \<Rightarrow> nat \<Rightarrow> error + 'a SimpleVector" where
  "SimpleVector_sized E size' = SimpleVector_sized_value E size' (Type_default E)"

text \<open>\<open>SimpleVector(std::initializer_list<Type> init)\<close>.\<close>

definition SimpleVector_init :: "'a Type_env \<Rightarrow> 'a list \<Rightarrow> error + 'a SimpleVector" where
  "SimpleVector_init E init =
     bind_e (ArrayPtr_new E (length init)) (\<lambda>block.
     bind_e (std_copy init 0 (length init) block 0) (\<lambda>block'.
     Inr \<lparr>simple_vector_m = block', size_m = length init, capacity_m = length init\<rparr>))"

text \<open>
  \<open>SimpleVector(const SimpleVector& other)\<close>.  The initialiser list names
  \<open>simple_vector_\<close> and \<open>size_\<close> only, so \<open>capacity_\<close> takes its default member
  initialiser \<open>= 0\<close>.
\<close>

definition SimpleVector_copy :: "'a Type_env \<Rightarrow> 'a SimpleVector \<Rightarrow> error + 'a SimpleVector" where
  "SimpleVector_copy E other =
     bind_e (ArrayPtr_new E (capacity_m other)) (\<lambda>block.
     bind_e (std_copy (simple_vector_m other) 0 (size_m other) block 0) (\<lambda>block'.
     Inr \<lparr>simple_vector_m = block', size_m = size_m other, capacity_m = 0\<rparr>))"

text \<open>\<open>void swap(SimpleVector& other)\<close>: the pair is (this object, the other object) afterwards.\<close>

definition swap :: "'a SimpleVector \<Rightarrow> 'a SimpleVector \<Rightarrow> 'a SimpleVector \<times> 'a SimpleVector" where
  "swap this other =
     (\<lparr>simple_vector_m = simple_vector_m other, size_m = size_m other,
       capacity_m = capacity_m other\<rparr>,
      \<lparr>simple_vector_m = simple_vector_m this, size_m = size_m this,
       capacity_m = capacity_m this\<rparr>)"

text \<open>
  \<open>SimpleVector(SimpleVector&& other)\<close>: a block of \<open>other.capacity_\<close> slots is allocated
  for the new object, whose counters are 0, and the two objects are swapped.  The pair is
  (the new object, \<open>other\<close> afterwards).
\<close>

definition SimpleVector_move ::
  "'a Type_env \<Rightarrow> 'a SimpleVector \<Rightarrow> error + ('a SimpleVector \<times> 'a SimpleVector)" where
  "SimpleVector_move E other =
     bind_e (ArrayPtr_new E (capacity_m other)) (\<lambda>block.
     Inr (swap \<lparr>simple_vector_m = block, size_m = 0, capacity_m = 0\<rparr> other))"

text \<open>\<open>void Reserve(size_t new_capacity)\<close>.\<close>

definition Reserve :: "'a Type_env \<Rightarrow> 'a SimpleVector \<Rightarrow> nat \<Rightarrow> error + 'a SimpleVector" where
  "Reserve E v new_capacity =
     (if new_capacity > capacity_m v
      then bind_e (ArrayPtr_new E new_capacity) (\<lambda>temp.
           bind_e (std_fill temp 0 (0 + new_capacity) (Type_default E)) (\<lambda>temp1.
           bind_e (std_copy (simple_vector_m v) 0 (0 + size_m v) temp1 0) (\<lambda>temp2.
           Inr \<lparr>simple_vector_m = temp2, size_m = size_m v, capacity_m = new_capacity\<rparr>)))
      else Inr v)"

text \<open>
  The class \<open>ReserveFunc\<close>, the free function \<open>Reserve(size_t)\<close> that builds one, and
  \<open>explicit SimpleVector(const ReserveFunc obj)\<close>.
\<close>

datatype ReserveFunc = ReserveFunc nat

fun ReserveFunc_GetCapacity :: "ReserveFunc \<Rightarrow> nat" where
  "ReserveFunc_GetCapacity (ReserveFunc c) = c"

definition Reserve_func :: "nat \<Rightarrow> ReserveFunc" where
  "Reserve_func capacity_to_reserve = ReserveFunc capacity_to_reserve"

definition SimpleVector_reserved :: "'a Type_env \<Rightarrow> ReserveFunc \<Rightarrow> error + 'a SimpleVector" where
  "SimpleVector_reserved E obj = Reserve E SimpleVector_default (ReserveFunc_GetCapacity obj)"

text \<open>
  \<open>SimpleVector& operator=(const SimpleVector& rhs)\<close>.  The test
  \<open>&simple_vector_ != &rhs.simple_vector_\<close> compares the addresses of the two objects, so
  the objects live in a store, addressed by numbers.  \<open>helper\<close> is a local of the
  operator.  The result is the store when the operator is left, and how it is left.
\<close>

definition operator_assign ::
  "'a Type_env \<Rightarrow> (nat \<Rightarrow> 'a SimpleVector) \<Rightarrow> nat \<Rightarrow> nat
     \<Rightarrow> (nat \<Rightarrow> 'a SimpleVector) \<times> (error + unit)" where
  "operator_assign E objs this rhs =
     (if this \<noteq> rhs
      then (case SimpleVector_copy E (objs rhs) of
              Inl e \<Rightarrow> (objs, Inl e)
            | Inr helper \<Rightarrow> (objs(this := fst (swap (objs this) helper)), Inr ()))
      else (objs, Inr ()))"

text \<open>\<open>operator[]\<close>, in both forms.\<close>

definition operator_index :: "'a SimpleVector \<Rightarrow> nat \<Rightarrow> error + 'a" where
  "operator_index v index =
     (if index < size_m v then ArrayPtr_index (simple_vector_m v) index
      else Inl AssertionFailed)"

text \<open>
  \<open>At\<close>, in both forms: the object when the call is left, and the element or the error.
  No member is assigned.
\<close>

definition At :: "'a SimpleVector \<Rightarrow> nat \<Rightarrow> 'a SimpleVector \<times> (error + 'a)" where
  "At v index =
     (if index \<ge> size_m v then (v, Inl OutOfRange)
      else (v, ArrayPtr_index (simple_vector_m v) index))"

text \<open>\<open>begin\<close>, \<open>end\<close> (and \<open>cbegin\<close>, \<open>cend\<close>), as offsets from \<open>simple_vector_.Get()\<close>.\<close>

definition SimpleVector_begin :: "'a SimpleVector \<Rightarrow> nat" where
  "SimpleVector_begin v = 0"

definition SimpleVector_end :: "'a SimpleVector \<Rightarrow> nat" where
  "SimpleVector_end v = 0 + size_m v"

definition GetSize :: "'a SimpleVector \<Rightarrow> nat" where
  "GetSize v = size_m v"

definition GetCapacity :: "'a SimpleVector \<Rightarrow> nat" where
  "GetCapacity v = capacity_m v"

definition IsEmpty :: "'a SimpleVector \<Rightarrow> bool" where
  "IsEmpty v = (size_m v = 0)"

definition Clear :: "'a SimpleVector \<Rightarrow> 'a SimpleVector" where
  "Clear v = \<lparr>simple_vector_m = simple_vector_m v, size_m = 0, capacity_m = capacity_m v\<rparr>"

text \<open>
  \<open>void Resize(size_t new_size)\<close>: three \<open>if\<close> statements in a row, none of them an
  \<open>else\<close> branch of another.
\<close>

definition Resize :: "'a Type_env \<Rightarrow> 'a SimpleVector \<Rightarrow> nat \<Rightarrow> error + 'a SimpleVector" where
  "Resize E v new_size =
     (let v1 = (if new_size \<le> size_m v then v\<lparr>size_m := new_size\<rparr> else v) in
      bind_e (if new_size \<le> capacity_m v1
              then bind_e (Fill E (simple_vector_m v1) (0 + size_m v1) (0 + size_m v1 + new_size))
                     (\<lambda>block. Inr (v1\<lparr>simple_vector_m := block\<rparr>))
              else Inr v1) (\<lambda>v2.
      if new_size > capacity_m v2
      then (let new_capacity = max new_size (capacity_m v2 * 2) in
            bind_e (ArrayPtr_new E new_capacity) (\<lambda>temp.
            bind_e (Fill E temp 0 (0 + new_capacity)) (\<lambda>temp1.
            bind_e (std_move E (simple_vector_m v2) 0 (0 + capacity_m v2) temp1 0) (\<lambda>(old, temp2).
            Inr \<lparr>simple_vector_m = temp2, size_m = new_size, capacity_m = new_capacity\<rparr>))))
      else Inr v2))"

text \<open>
  A reference argument (\<open>const Type& item\<close>, \<open>Type&& item\<close>) either refers to an object
  outside the vector's block, which holds a value throughout the call (\<open>Elsewhere x\<close>),
  or to slot \<open>i\<close> of the block that the vector owns when the call starts (\<open>Own_slot i\<close>).
  \<open>deref block r\<close> reads through \<open>r\<close> while that block is alive and holds \<open>block\<close>;
  \<open>deref_released r\<close> reads through \<open>r\<close> after that block has been released;
  \<open>moved_out E block r\<close> is the block after the object behind \<open>r\<close>, which held \<open>x\<close>,
  has been the source of a move.
\<close>

datatype 'a arg_ref = Elsewhere 'a | Own_slot nat

definition deref :: "'a list \<Rightarrow> 'a arg_ref \<Rightarrow> error + 'a" where
  "deref block r = (case r of Elsewhere x \<Rightarrow> Inr x | Own_slot i \<Rightarrow> ArrayPtr_index block i)"

definition deref_released :: "'a arg_ref \<Rightarrow> error + 'a" where
  "deref_released r = (case r of Elsewhere x \<Rightarrow> Inr x | Own_slot i \<Rightarrow> Inl UseAfterFree)"

definition moved_out :: "'a Type_env \<Rightarrow> 'a list \<Rightarrow> 'a arg_ref \<Rightarrow> 'a \<Rightarrow> 'a list" where
  "moved_out E block r x =
     (case r of Elsewhere y \<Rightarrow> block | Own_slot i \<Rightarrow> block[i := moved_from E x])"

text \<open>
  \<open>void PushBack(const Type& item)\<close>.  In the growing branch \<open>temp\<close> owns the old block
  after the swap and is destroyed at the closing brace, so the old block is released
  before \<open>item\<close> is read in \<open>simple_vector_[size_] = item\<close>.  The branch hands on the
  object and whether the old block has been released.
\<close>

definition PushBack_copy ::
  "'a Type_env \<Rightarrow> 'a SimpleVector \<Rightarrow> 'a arg_ref \<Rightarrow> error + 'a SimpleVector" where
  "PushBack_copy E v item =
     bind_e (if size_m v + 1 > capacity_m v
             then (let new_capacity = max (size_m v + 1) (capacity_m v * 2) in
                   bind_e (ArrayPtr_new E new_capacity) (\<lambda>temp.
                   bind_e (std_fill temp 0 (0 + new_capacity) (Type_default E)) (\<lambda>temp1.
                   bind_e (std_copy (simple_vector_m v) 0 (0 + size_m v) temp1 0) (\<lambda>temp2.
                   Inr (v\<lparr>simple_vector_m := temp2, capacity_m := new_capacity\<rparr>, True)))))
             else Inr (v, False)) (\<lambda>(v1, released).
     bind_e (if released then deref_released item else deref (simple_vector_m v1) item) (\<lambda>x.
     bind_e (ArrayPtr_assign (simple_vector_m v1) (size_m v1) x) (\<lambda>block.
     Inr (v1\<lparr>simple_vector_m := block, size_m := size_m v1 + 1\<rparr>))))"

text \<open>
  \<open>void PushBack(Type&& item)\<close>: the new block is not filled before the elements move
  in, and \<open>simple_vector_[size_] = std::move(item)\<close> leaves the object behind \<open>item\<close>
  moved from (a reference into a released block does not get that far).
\<close>

definition PushBack_move ::
  "'a Type_env \<Rightarrow> 'a SimpleVector \<Rightarrow> 'a arg_ref \<Rightarrow> error + 'a SimpleVector" where
  "PushBack_move E v item =
     bind_e (if size_m v + 1 > capacity_m v
             then (let new_capacity = max (size_m v + 1) (capacity_m v * 2) in
                   bind_e (ArrayPtr_new E new_capacity) (\<lambda>temp.
                   bind_e (std_move E (simple_vector_m v) 0 (0 + size_m v) temp 0) (\<lambda>(old, temp1).
                   Inr (v\<lparr>simple_vector_m := temp1, capacity_m := new_capacity\<rparr>, True))))
             else Inr (v, False)) (\<lambda>(v1, released).
     bind_e (if released then deref_released item else deref (simple_vector_m v1) item) (\<lambda>x.
     bind_e (ArrayPtr_assign (simple_vector_m v1) (size_m v1) x) (\<lambda>block.
     Inr (v1\<lparr>simple_vector_m := moved_out E block item x, size_m := size_m v1 + 1\<rparr>))))"

text \<open>
  \<open>Iterator Insert(ConstIterator pos, const Type& value)\<close>.  \<open>pos >= begin()\<close> holds of
  every offset.  In the last branch the new block is \<open>ArrayPtr<Type> temp(capacity_)\<close>.
  In every branch \<open>value\<close> is read while the old block is alive: before the swap in the
  first and the last branch, and from the shifted block in the middle one.
  The result is the object and the returned iterator \<open>&simple_vector_[count]\<close>.
\<close>

definition Insert_copy ::
  "'a Type_env \<Rightarrow> 'a SimpleVector \<Rightarrow> nat \<Rightarrow> 'a arg_ref
     \<Rightarrow> error + ('a SimpleVector \<times> nat)" where
  "Insert_copy E v pos val =
     (if pos \<le> SimpleVector_end v
      then (let count = pos in
            bind_e (if capacity_m v = 0
                    then bind_e (ArrayPtr_new E 1) (\<lambda>temp.
                         bind_e (deref (simple_vector_m v) val) (\<lambda>x.
                         bind_e (ArrayPtr_assign temp count x) (\<lambda>temp1.
                         Inr (v\<lparr>simple_vector_m := temp1, capacity_m := capacity_m v + 1\<rparr>))))
                    else if size_m v < capacity_m v
                    then bind_e (backward_loop_within (\<lambda>x. x) (simple_vector_m v)
                                   (0 + count) (0 + size_m v) (0 + size_m v + 1)) (\<lambda>block.
                         bind_e (deref block val) (\<lambda>x.
                         bind_e (ArrayPtr_assign block count x) (\<lambda>block1.
                         Inr (v\<lparr>simple_vector_m := block1\<rparr>))))
                    else (let new_capacity = max (size_m v + 1) (capacity_m v * 2) in
                          bind_e (ArrayPtr_new E (capacity_m v)) (\<lambda>temp.
                          bind_e (std_copy (simple_vector_m v) 0 (0 + size_m v) temp 0) (\<lambda>temp1.
                          bind_e (std_copy_backward (simple_vector_m v) (0 + count) (0 + size_m v)
                                    temp1 (0 + size_m v + 1)) (\<lambda>temp2.
                          bind_e (deref (simple_vector_m v) val) (\<lambda>x.
                          bind_e (ArrayPtr_assign temp2 count x) (\<lambda>temp3.
                          Inr (v\<lparr>simple_vector_m := temp3, capacity_m := new_capacity\<rparr>))))))))
              (\<lambda>v1. Inr (v1\<lparr>size_m := size_m v1 + 1\<rparr>, count)))
      else Inl AssertionFailed)"

text \<open>
  \<open>Iterator Insert(Iterator pos, Type&& value)\<close>.  In the last branch \<open>value\<close> is read
  from the old block after its elements have been moved out of it.  In the first and the
  last branch the old block, where the move may leave a moved-from object, is released at
  the end of the branch; in the middle one the block stays.
\<close>

definition Insert_move ::
  "'a Type_env \<Rightarrow> 'a SimpleVector \<Rightarrow> nat \<Rightarrow> 'a arg_ref
     \<Rightarrow> error + ('a SimpleVector \<times> nat)" where
  "Insert_move E v pos val =
     (if pos \<le> SimpleVector_end v
      then (let count = pos in
            bind_e (if capacity_m v = 0
                    then bind_e (ArrayPtr_new E 1) (\<lambda>temp.
                         bind_e (deref (simple_vector_m v) val) (\<lambda>x.
                         bind_e (ArrayPtr_assign temp count x) (\<lambda>temp1.
                         Inr (v\<lparr>simple_vector_m := temp1, capacity_m := capacity_m v + 1\<rparr>))))
                    else if size_m v < capacity_m v
                    then bind_e (backward_loop_within (moved_from E) (simple_vector_m v)
                                   (0 + count) (0 + size_m v) (0 + size_m v + 1)) (\<lambda>block.
                         bind_e (deref block val) (\<lambda>x.
                         bind_e (ArrayPtr_assign block count x) (\<lambda>block1.
                         Inr (v\<lparr>simple_vector_m := moved_out E block1 val x\<rparr>))))
                    else (let new_capacity = max (size_m v + 1) (capacity_m v * 2) in
                          bind_e (ArrayPtr_new E (capacity_m v)) (\<lambda>temp.
                          bind_e (std_move E (simple_vector_m v) 0 (0 + size_m v) temp 0)
                            (\<lambda>(old, temp1).
                          bind_e (std_move_backward E old (0 + count) (0 + size_m v)
                                    temp1 (0 + size_m v + 1)) (\<lambda>(old1, temp2).
                          bind_e (deref old1 val) (\<lambda>x.
                          bind_e (ArrayPtr_assign temp2 count x) (\<lambda>temp3.
                          Inr (v\<lparr>simple_vector_m := temp3, capacity_m := new_capacity\<rparr>))))))))
              (\<lambda>v1. Inr (v1\<lparr>size_m := size_m v1 + 1\<rparr>, count)))
      else Inl AssertionFailed)"

text \<open>
  \<open>void PopBack() noexcept\<close>.  \<open>--size_\<close> runs on a non-zero counter only, here and in
  \<open>Erase\<close>, where the loop before it ends only if \<open>count + 1\<close> reaches \<open>size_\<close>.
\<close>

definition PopBack :: "'a SimpleVector \<Rightarrow> error + 'a SimpleVector" where
  "PopBack v = (if \<not> IsEmpty v then Inr (v\<lparr>size_m := size_m v - 1\<rparr>) else Inl AssertionFailed)"

text \<open>
  \<open>Iterator Erase(ConstIterator pos)\<close>: the object and the returned iterator
  \<open>&simple_vector_[count]\<close>.
\<close>

definition Erase ::
  "'a Type_env \<Rightarrow> 'a SimpleVector \<Rightarrow> nat \<Rightarrow> error + ('a SimpleVector \<times> nat)" where
  "Erase E v pos =
     (if pos \<noteq> SimpleVector_end v
      then (let count = pos in
            bind_e (forward_loop_within (moved_from E) (simple_vector_m v)
                      (0 + count + 1) (0 + size_m v) (0 + count)) (\<lambda>block.
            Inr (v\<lparr>simple_vector_m := block, size_m := size_m v - 1\<rparr>, count)))
      else Inl AssertionFailed)"

subsection \<open>The comparison operators\<close>

definition operator_eq :: "'a SimpleVector \<Rightarrow> 'a SimpleVector \<Rightarrow> error + bool" where
  "operator_eq lhs rhs =
     std_equal (simple_vector_m lhs) (SimpleVector_begin lhs) (SimpleVector_end lhs)
       (simple_vector_m rhs) (SimpleVector_begin rhs)"

definition operator_ne :: "'a SimpleVector \<Rightarrow> 'a SimpleVector \<Rightarrow> error + bool" where
  "operator_ne lhs rhs = bind_e (operator_eq lhs rhs) (\<lambda>b. Inr (\<not> b))"

definition operator_lt :: "('a::ord) SimpleVector \<Rightarrow> 'a SimpleVector \<Rightarrow> error + bool" where
  "operator_lt lhs rhs =
     std_lexicographical_compare (simple_vector_m lhs) (SimpleVector_begin lhs)
       (SimpleVector_end lhs) (simple_vector_m rhs) (SimpleVector_begin rhs) (SimpleVector_end rhs)"

definition operator_le :: "('a::ord) SimpleVector \<Rightarrow> 'a SimpleVector \<Rightarrow> error + bool" where
  "operator_le lhs rhs = bind_e (operator_lt rhs lhs) (\<lambda>b. Inr (\<not> b))"

definition operator_gt :: "('a::ord) SimpleVector \<Rightarrow> 'a SimpleVector \<Rightarrow> error + bool" where
  "operator_gt lhs rhs = operator_lt rhs lhs"

definition operator_ge :: "('a::ord) SimpleVector \<Rightarrow> 'a SimpleVector \<Rightarrow> error + bool" where
  "operator_ge lhs rhs = bind_e (operator_lt lhs rhs) (\<lambda>b. Inr (\<not> b))"

subsection \<open>An element type to run the class on\<close>

text \<open>
  \<open>int\<close> as the element type: \<open>int()\<close> is 0, a moved-from \<open>int\<close> keeps its value, and
  a fresh block holds zeros.  \<open>int_env\<close> never runs out of memory; \<open>int_env_bounded limit\<close>
  cannot allocate a block of more than \<open>limit\<close> slots.
\<close>

definition int_env :: "int Type_env" where
  "int_env = \<lparr>Type_default = 0, moved_from = (\<lambda>x. x), operator_new = (\<lambda>n. Some (\<lambda>i. 0))\<rparr>"

definition int_env_bounded :: "nat \<Rightarrow> int Type_env" where
  "int_env_bounded limit =
     \<lparr>Type_default = 0, moved_from = (\<lambda>x. x),
      operator_new = (\<lambda>n. if n \<le> limit then Some (\<lambda>i. 0) else None)\<rparr>"


section \<open>Properties\<close>

subsection \<open>Sequencing and the loops\<close>

lemma std_fill_ok:
  "first \<le> last' \<Longrightarrow> last' \<le> length block \<Longrightarrow>
   \<exists>block'. std_fill block first last' v = Inr block' \<and> length block' = length block"
proof (induction block first last' v rule: std_fill.induct)
  case (1 block first last' v)
  show ?case
  proof (cases "first = last'")
    case True
    then show ?thesis by (simp add: std_fill.simps [of block])
  next
    case False
    with "1.prems" have lt: "first < length block" and le: "Suc first \<le> last'" by auto
    from "1.IH" [OF False lt le] "1.prems" False lt show ?thesis
      by (simp add: std_fill.simps [of block])
  qed
qed

lemma forward_loop_ok:
  "first \<le> last' \<Longrightarrow> last' \<le> length src \<Longrightarrow> d_first + (last' - first) \<le> length dst \<Longrightarrow>
   \<exists>src' dst'. forward_loop after src first last' dst d_first = Inr (src', dst')
      \<and> length dst' = length dst
      \<and> (\<forall>i < last' - first. dst' ! (d_first + i) = src ! (first + i))
      \<and> (\<forall>j < d_first. dst' ! j = dst ! j)"
proof (induction after src first last' dst d_first rule: forward_loop.induct)
  case (1 after src first last' dst d_first)
  show ?case
  proof (cases "first = last'")
    case True
    then show ?thesis by (simp add: forward_loop.simps [of after src])
  next
    case False
    with "1.prems" have lt: "first < length src \<and> d_first < length dst" by auto
    let ?src = "src[first := after (src ! first)]"
    let ?dst = "dst[d_first := src ! first]"
    have p1: "Suc first \<le> last'" using False "1.prems" by simp
    have p2: "last' \<le> length ?src" using "1.prems" by simp
    have p3: "Suc d_first + (last' - Suc first) \<le> length ?dst" using False "1.prems" by simp
    from "1.IH" [OF False lt p1 p2 p3] obtain src' dst' where
      r: "forward_loop after ?src (Suc first) last' ?dst (Suc d_first) = Inr (src', dst')"
      and len: "length dst' = length ?dst"
      and cp: "\<forall>i < last' - Suc first. dst' ! (Suc d_first + i) = ?src ! (Suc first + i)"
      and keep: "\<forall>j < Suc d_first. dst' ! j = ?dst ! j"
      by blast
    have eq: "forward_loop after src first last' dst d_first = Inr (src', dst')"
      using False lt r by (simp add: forward_loop.simps [of after src])
    have c: "dst' ! (d_first + i) = src ! (first + i)" if "i < last' - first" for i
    proof (cases i)
      case 0
      then show ?thesis using keep lt by simp
    next
      case (Suc k)
      with that have "k < last' - Suc first" by simp
      with cp have "dst' ! (Suc d_first + k) = ?src ! (Suc first + k)" by blast
      then show ?thesis using Suc by simp
    qed
    have k: "dst' ! j = dst ! j" if "j < d_first" for j
      using keep that by simp
    from eq len c k show ?thesis by simp
  qed
qed

lemma forward_loop_within_shift:
  "first = Suc d_first \<Longrightarrow> first \<le> last' \<Longrightarrow> last' \<le> length block \<Longrightarrow>
   \<exists>block'. forward_loop_within after block first last' d_first = Inr block'
      \<and> length block' = length block
      \<and> (\<forall>i < d_first. block' ! i = block ! i)
      \<and> (\<forall>i. d_first \<le> i \<and> Suc i < last' \<longrightarrow> block' ! i = block ! Suc i)"
proof (induction after block first last' d_first rule: forward_loop_within.induct)
  case (1 after block first last' d_first)
  show ?case
  proof (cases "first = last'")
    case True
    then show ?thesis using "1.prems" by (auto simp: forward_loop_within.simps [of after block])
  next
    case False
    with "1.prems" have lt: "first < length block \<and> d_first < length block" by auto
    let ?b = "(block[d_first := block ! first])[first := after (block ! first)]"
    have p1: "Suc first = Suc (Suc d_first)" using "1.prems" by simp
    have p2: "Suc first \<le> last'" using False "1.prems" by simp
    have p3: "last' \<le> length ?b" using "1.prems" by simp
    from "1.IH" [OF False lt p1 p2 p3] obtain block' where
      r: "forward_loop_within after ?b (Suc first) last' (Suc d_first) = Inr block'"
      and len: "length block' = length ?b"
      and keep: "\<forall>i < Suc d_first. block' ! i = ?b ! i"
      and sh: "\<forall>i. Suc d_first \<le> i \<and> Suc i < last' \<longrightarrow> block' ! i = ?b ! Suc i"
      by blast
    have eq: "forward_loop_within after block first last' d_first = Inr block'"
      using False lt r by (simp add: forward_loop_within.simps [of after block])
    have k: "block' ! i = block ! i" if "i < d_first" for i
      using keep that "1.prems"(1) by simp
    have s: "block' ! i = block ! Suc i" if "d_first \<le> i" "Suc i < last'" for i
    proof (cases "i = d_first")
      case True
      then show ?thesis using keep lt "1.prems"(1) by simp
    next
      case False
      with that have "Suc d_first \<le> i \<and> Suc i < last'" by simp
      with sh have "block' ! i = ?b ! Suc i" by blast
      then show ?thesis using that "1.prems"(1) False by simp
    qed
    from eq len k s show ?thesis by simp
  qed
qed

lemma bind_e_simps [simp]:
  "bind_e (Inr x) f = f x" "bind_e (Inl e) f = Inl e"
  by (simp_all add: bind_e_def)

subsection \<open>Appending\<close>

lemma ArrayPtr_new_length: "ArrayPtr_new E n = Inr block \<Longrightarrow> length block = n"
  by (auto simp: ArrayPtr_new_def split: if_splits option.splits)

lemma grow_copy_prefix:
  assumes new: "ArrayPtr_new E n = Inr temp" and sz: "size_m v \<le> length (simple_vector_m v)"
    and n: "size_m v \<le> n"
  shows "\<exists>temp1 temp2. std_fill temp 0 n (Type_default E) = Inr temp1
         \<and> std_copy (simple_vector_m v) 0 (size_m v) temp1 0 = Inr temp2
         \<and> length temp2 = n
         \<and> take (size_m v) temp2 = take (size_m v) (simple_vector_m v)"
proof -
  have l0: "length temp = n" using new by (rule ArrayPtr_new_length)
  obtain temp1 where f: "std_fill temp 0 n (Type_default E) = Inr temp1"
    and l1: "length temp1 = n"
    using std_fill_ok [of 0 n temp "Type_default E"] l0 by auto
  have "size_m v \<le> length temp1" using l1 n by simp
  with sz obtain src' temp2 where
    c: "forward_loop (\<lambda>x. x) (simple_vector_m v) 0 (size_m v) temp1 0 = Inr (src', temp2)"
    and l2: "length temp2 = length temp1"
    and cp: "\<forall>i < size_m v - 0. temp2 ! (0 + i) = simple_vector_m v ! (0 + i)"
    using forward_loop_ok [of 0 "size_m v" "simple_vector_m v" 0 temp1 "\<lambda>x. x"]
    by auto
  have t: "take (size_m v) temp2 = take (size_m v) (simple_vector_m v)"
  proof (rule nth_take_lemma)
    show "size_m v \<le> length temp2" using l2 l1 n by simp
    show "size_m v \<le> length (simple_vector_m v)" by (rule sz)
    show "i < size_m v \<longrightarrow> temp2 ! i = simple_vector_m v ! i" for i
      using cp by simp
  qed
  have c': "std_copy (simple_vector_m v) 0 (size_m v) temp1 0 = Inr temp2"
    using c by (simp add: std_copy_def)
  from f c' l2 l1 t show ?thesis by simp
qed

lemma grow_move_prefix:
  assumes new: "ArrayPtr_new E n = Inr temp" and sz: "size_m v \<le> length (simple_vector_m v)"
    and n: "size_m v \<le> n"
  shows "\<exists>old temp1. std_move E (simple_vector_m v) 0 (size_m v) temp 0 = Inr (old, temp1)
         \<and> length temp1 = n
         \<and> take (size_m v) temp1 = take (size_m v) (simple_vector_m v)"
proof -
  have l0: "length temp = n" using new by (rule ArrayPtr_new_length)
  then have "size_m v \<le> length temp" using n by simp
  with sz obtain old temp1 where
    c: "forward_loop (moved_from E) (simple_vector_m v) 0 (size_m v) temp 0 = Inr (old, temp1)"
    and l: "length temp1 = length temp"
    and cp: "\<forall>i < size_m v - 0. temp1 ! (0 + i) = simple_vector_m v ! (0 + i)"
    using forward_loop_ok [of 0 "size_m v" "simple_vector_m v" 0 temp "moved_from E"]
    by auto
  have t: "take (size_m v) temp1 = take (size_m v) (simple_vector_m v)"
  proof (rule nth_take_lemma)
    show "size_m v \<le> length temp1" using l l0 n by simp
    show "size_m v \<le> length (simple_vector_m v)" by (rule sz)
    show "i < size_m v \<longrightarrow> temp1 ! i = simple_vector_m v ! i" for i
      using cp by simp
  qed
  from c l l0 t show ?thesis by (simp add: std_move_def)
qed

lemma PushBack_copy_grow:
  assumes sz: "size_m v \<le> length (simple_vector_m v)"
    and gr: "size_m v + 1 > capacity_m v"
    and new: "ArrayPtr_new E (max (size_m v + 1) (capacity_m v * 2)) = Inr temp"
  shows "\<exists>v'. PushBack_copy E v (Elsewhere item) = Inr v'
          \<and> capacity_m v' = max (size_m v + 1) (capacity_m v * 2)
          \<and> length (simple_vector_m v') = max (size_m v + 1) (capacity_m v * 2)
          \<and> take (size_m v) (simple_vector_m v') = take (size_m v) (simple_vector_m v)
          \<and> simple_vector_m v' ! size_m v = item
          \<and> size_m v' = size_m v + 1"
proof -
  let ?n = "max (size_m v + 1) (capacity_m v * 2)"
  have "size_m v \<le> ?n" by simp
  from grow_copy_prefix [OF new sz this] obtain temp1 temp2 where
    f: "std_fill temp 0 ?n (Type_default E) = Inr temp1"
    and c: "std_copy (simple_vector_m v) 0 (size_m v) temp1 0 = Inr temp2"
    and l: "length temp2 = ?n"
    and t: "take (size_m v) temp2 = take (size_m v) (simple_vector_m v)"
    by blast
  have lt: "size_m v < length temp2" using l by simp
  have "PushBack_copy E v (Elsewhere item) =
          Inr \<lparr>simple_vector_m = temp2[size_m v := item], size_m = size_m v + 1, capacity_m = ?n\<rparr>"
    unfolding PushBack_copy_def Let_def using gr lt new f c
    by (simp add: ArrayPtr_assign_def deref_released_def)
  then show ?thesis using l t lt by simp
qed

lemma PushBack_move_grow:
  assumes sz: "size_m v \<le> length (simple_vector_m v)"
    and gr: "size_m v + 1 > capacity_m v"
    and new: "ArrayPtr_new E (max (size_m v + 1) (capacity_m v * 2)) = Inr temp"
  shows "\<exists>v'. PushBack_move E v (Elsewhere item) = Inr v'
          \<and> capacity_m v' = max (size_m v + 1) (capacity_m v * 2)
          \<and> length (simple_vector_m v') = max (size_m v + 1) (capacity_m v * 2)
          \<and> take (size_m v) (simple_vector_m v') = take (size_m v) (simple_vector_m v)
          \<and> simple_vector_m v' ! size_m v = item
          \<and> size_m v' = size_m v + 1"
proof -
  let ?n = "max (size_m v + 1) (capacity_m v * 2)"
  have "size_m v \<le> ?n" by simp
  from grow_move_prefix [OF new sz this] obtain old temp1 where
    c: "std_move E (simple_vector_m v) 0 (size_m v) temp 0 = Inr (old, temp1)"
    and l: "length temp1 = ?n"
    and t: "take (size_m v) temp1 = take (size_m v) (simple_vector_m v)"
    by blast
  have lt: "size_m v < length temp1" using l by simp
  have "PushBack_move E v (Elsewhere item) =
          Inr \<lparr>simple_vector_m = temp1[size_m v := item], size_m = size_m v + 1, capacity_m = ?n\<rparr>"
    unfolding PushBack_move_def Let_def using gr lt new c
    by (simp add: ArrayPtr_assign_def deref_released_def moved_out_def)
  then show ?thesis using l t lt by simp
qed

lemma PushBack_copy_room:
  assumes "capacity_m v \<le> length (simple_vector_m v)" and "size_m v + 1 \<le> capacity_m v"
  shows "PushBack_copy E v (Elsewhere item) =
           Inr \<lparr>simple_vector_m = (simple_vector_m v)[size_m v := item],
                size_m = size_m v + 1, capacity_m = capacity_m v\<rparr>"
  using assms by (simp add: PushBack_copy_def ArrayPtr_assign_def deref_def)

lemma PushBack_move_room:
  assumes "capacity_m v \<le> length (simple_vector_m v)" and "size_m v + 1 \<le> capacity_m v"
  shows "PushBack_move E v (Elsewhere item) =
           Inr \<lparr>simple_vector_m = (simple_vector_m v)[size_m v := item],
                size_m = size_m v + 1, capacity_m = capacity_m v\<rparr>"
  using assms by (simp add: PushBack_move_def ArrayPtr_assign_def deref_def moved_out_def)

text \<open>
  Appending an object that lies outside the vector's block.  Let the live range and the
  reported capacity of a vector lie inside its allocated block.  If
  \<open>size_ + 1 > capacity_\<close> and the allocation of \<open>max(size_ + 1, capacity_ * 2)\<close>
  slots succeeds, then \<open>PushBack\<close>, by copy and by transfer, returns a vector whose
  reported capacity and whose allocated block are exactly that large, whose first
  \<open>size_\<close> elements are the old ones in order, whose slot \<open>size_\<close> holds the new value
  and whose length is one more; the capacity is then at least 1, whatever it was.  If
  \<open>size_ + 1 \<le> capacity_\<close>, the value is written into the same block, the length is
  one more and the capacity is unchanged, whatever the allocator would do.
\<close>

theorem PushBack_appends:
  assumes "size_m v \<le> length (simple_vector_m v)"
    and "capacity_m v \<le> length (simple_vector_m v)"
  shows
    "(size_m v + 1 > capacity_m v
        \<and> ArrayPtr_new E (max (size_m v + 1) (capacity_m v * 2)) = Inr temp \<longrightarrow>
        (\<exists>v'. PushBack_copy E v (Elsewhere item) = Inr v'
            \<and> GetCapacity v' = max (size_m v + 1) (capacity_m v * 2)
            \<and> length (simple_vector_m v') = max (size_m v + 1) (capacity_m v * 2)
            \<and> take (size_m v) (simple_vector_m v') = take (size_m v) (simple_vector_m v)
            \<and> simple_vector_m v' ! size_m v = item
            \<and> GetSize v' = size_m v + 1
            \<and> 1 \<le> GetCapacity v')
        \<and> (\<exists>v'. PushBack_move E v (Elsewhere item) = Inr v'
            \<and> GetCapacity v' = max (size_m v + 1) (capacity_m v * 2)
            \<and> length (simple_vector_m v') = max (size_m v + 1) (capacity_m v * 2)
            \<and> take (size_m v) (simple_vector_m v') = take (size_m v) (simple_vector_m v)
            \<and> simple_vector_m v' ! size_m v = item
            \<and> GetSize v' = size_m v + 1
            \<and> 1 \<le> GetCapacity v'))
     \<and> (size_m v + 1 \<le> capacity_m v \<longrightarrow>
        PushBack_copy E v (Elsewhere item) =
          Inr \<lparr>simple_vector_m = (simple_vector_m v)[size_m v := item],
               size_m = size_m v + 1, capacity_m = capacity_m v\<rparr>
        \<and> PushBack_move E v (Elsewhere item) =
          Inr \<lparr>simple_vector_m = (simple_vector_m v)[size_m v := item],
               size_m = size_m v + 1, capacity_m = capacity_m v\<rparr>)"
proof (intro conjI impI)
  assume g: "size_m v + 1 > capacity_m v
        \<and> ArrayPtr_new E (max (size_m v + 1) (capacity_m v * 2)) = Inr temp"
  from PushBack_copy_grow [OF assms(1), of E temp item] g
  show "\<exists>v'. PushBack_copy E v (Elsewhere item) = Inr v'
            \<and> GetCapacity v' = max (size_m v + 1) (capacity_m v * 2)
            \<and> length (simple_vector_m v') = max (size_m v + 1) (capacity_m v * 2)
            \<and> take (size_m v) (simple_vector_m v') = take (size_m v) (simple_vector_m v)
            \<and> simple_vector_m v' ! size_m v = item
            \<and> GetSize v' = size_m v + 1
            \<and> 1 \<le> GetCapacity v'"
    by (auto simp: GetCapacity_def GetSize_def)
  from PushBack_move_grow [OF assms(1), of E temp item] g
  show "\<exists>v'. PushBack_move E v (Elsewhere item) = Inr v'
            \<and> GetCapacity v' = max (size_m v + 1) (capacity_m v * 2)
            \<and> length (simple_vector_m v') = max (size_m v + 1) (capacity_m v * 2)
            \<and> take (size_m v) (simple_vector_m v') = take (size_m v) (simple_vector_m v)
            \<and> simple_vector_m v' ! size_m v = item
            \<and> GetSize v' = size_m v + 1
            \<and> 1 \<le> GetCapacity v'"
    by (auto simp: GetCapacity_def GetSize_def)
next
  assume r: "size_m v + 1 \<le> capacity_m v"
  show "PushBack_copy E v (Elsewhere item) =
          Inr \<lparr>simple_vector_m = (simple_vector_m v)[size_m v := item],
               size_m = size_m v + 1, capacity_m = capacity_m v\<rparr>"
    by (rule PushBack_copy_room [OF assms(2) r])
  show "PushBack_move E v (Elsewhere item) =
          Inr \<lparr>simple_vector_m = (simple_vector_m v)[size_m v := item],
               size_m = size_m v + 1, capacity_m = capacity_m v\<rparr>"
    by (rule PushBack_move_room [OF assms(2) r])
qed

theorem PushBack_appends_witness:
  "(\<exists>v'. PushBack_copy int_env \<lparr>simple_vector_m = [1, 2, 3], size_m = 3, capacity_m = 3\<rparr>
           (Elsewhere 4) = Inr v'
       \<and> GetCapacity v' = 6 \<and> length (simple_vector_m v') = 6
       \<and> take 3 (simple_vector_m v') = [1, 2, 3] \<and> simple_vector_m v' ! 3 = 4 \<and> GetSize v' = 4)
   \<and> (\<exists>v'. PushBack_move int_env SimpleVector_default (Elsewhere 7) = Inr v'
       \<and> GetCapacity v' = 1 \<and> simple_vector_m v' ! 0 = 7 \<and> GetSize v' = 1)
   \<and> PushBack_move int_env \<lparr>simple_vector_m = [1, 2, 3, 0], size_m = 3, capacity_m = 4\<rparr>
         (Elsewhere 4)
       = Inr \<lparr>simple_vector_m = [1, 2, 3, 4], size_m = 4, capacity_m = 4\<rparr>"
  using
    PushBack_appends [of "\<lparr>simple_vector_m = [1, 2, 3], size_m = 3, capacity_m = 3\<rparr>"
      int_env "[0, 0, 0, 0, 0, 0]" 4]
    PushBack_appends [of "SimpleVector_default :: int SimpleVector" int_env "[0]" 7]
    PushBack_appends [of "\<lparr>simple_vector_m = [1, 2, 3, 0], size_m = 3, capacity_m = 4\<rparr>"
      int_env "[]" 4]
  by (auto simp: int_env_def SimpleVector_default_def ArrayPtr_new_def upt_rec)


subsection \<open>Erasing\<close>

text \<open>
  Claim C7.  For a vector of length \<open>n\<close> whose live range lies inside its block and a
  position \<open>p < n\<close>, \<open>Erase\<close> returns the vector in which the elements before \<open>p\<close> are
  unchanged, every element formerly at \<open>i + 1\<close> with \<open>p \<le> i < n - 1\<close> is now at \<open>i\<close>,
  the length is \<open>n - 1\<close> and the capacity is unchanged, together with the position \<open>p\<close>:
  it refers to the element that followed the erased one, or is the end position when
  \<open>p\<close> was the last index.
\<close>

theorem Erase_shifts_left:
  assumes p: "pos < size_m v" and sz: "size_m v \<le> length (simple_vector_m v)"
  shows "\<exists>v'. Erase E v pos = Inr (v', pos)
      \<and> GetSize v' = size_m v - 1
      \<and> GetCapacity v' = capacity_m v
      \<and> length (simple_vector_m v') = length (simple_vector_m v)
      \<and> (\<forall>i < pos. simple_vector_m v' ! i = simple_vector_m v ! i)
      \<and> (\<forall>i. pos \<le> i \<and> i < size_m v - 1 \<longrightarrow>
            simple_vector_m v' ! i = simple_vector_m v ! (i + 1))
      \<and> (pos < size_m v - 1 \<longrightarrow> operator_index v' pos = Inr (simple_vector_m v ! (pos + 1)))
      \<and> (pos = size_m v - 1 \<longrightarrow> pos = SimpleVector_end v')"
proof -
  have "Suc pos \<le> size_m v" using p by simp
  from forward_loop_within_shift [OF refl this sz, of "moved_from E"] obtain block' where
    r: "forward_loop_within (moved_from E) (simple_vector_m v) (Suc pos) (size_m v) pos = Inr block'"
    and len: "length block' = length (simple_vector_m v)"
    and keep: "\<forall>i < pos. block' ! i = simple_vector_m v ! i"
    and sh: "\<forall>i. pos \<le> i \<and> Suc i < size_m v \<longrightarrow> block' ! i = simple_vector_m v ! Suc i"
    by blast
  let ?v' = "\<lparr>simple_vector_m = block', size_m = size_m v - 1, capacity_m = capacity_m v\<rparr>"
  have e: "Erase E v pos = Inr (?v', pos)"
    using p r by (simp add: Erase_def SimpleVector_end_def)
  have a: "pos < size_m v - 1 \<longrightarrow> operator_index ?v' pos = Inr (simple_vector_m v ! (pos + 1))"
    using sh sz len p by (auto simp: operator_index_def ArrayPtr_index_def)
  have b: "pos = size_m v - 1 \<longrightarrow> pos = SimpleVector_end ?v'"
    by (simp add: SimpleVector_end_def)
  have c: "\<forall>i. pos \<le> i \<and> i < size_m v - 1 \<longrightarrow> block' ! i = simple_vector_m v ! (i + 1)"
    using sh by auto
  show ?thesis
    using e len keep c a b by (simp add: GetSize_def GetCapacity_def)
qed

theorem Erase_shifts_left_witness:
  "\<exists>v'. Erase int_env \<lparr>simple_vector_m = [1, 2, 3, 4], size_m = 4, capacity_m = 4\<rparr> 1 = Inr (v', 1)
      \<and> GetSize v' = 3 \<and> GetCapacity v' = 4
      \<and> simple_vector_m v' ! 0 = 1 \<and> simple_vector_m v' ! 1 = 3 \<and> simple_vector_m v' ! 2 = 4
      \<and> operator_index v' 1 = Inr 3"
  using Erase_shifts_left [of 1 "\<lparr>simple_vector_m = [1, 2, 3, 4], size_m = 4, capacity_m = 4\<rparr>" int_env]
  by (auto simp: int_env_def)

subsection \<open>Construction by ownership transfer\<close>

lemma SimpleVector_eta:
  "\<lparr>simple_vector_m = simple_vector_m h, size_m = size_m h, capacity_m = capacity_m h\<rparr> = h"
  by (cases h) simp

text \<open>
  Claim C10.  When the block that the move constructor allocates for the new object is
  delivered, the new object is exactly the old state of \<open>A\<close> (same block, same length,
  same capacity), and \<open>A\<close> is left with \<open>GetSize\<close> 0, \<open>GetCapacity\<close> 0 and \<open>IsEmpty\<close>
  true.
\<close>

theorem move_construction_transfers:
  assumes "ArrayPtr_new E (capacity_m A) = Inr block"
  shows "\<exists>A'. SimpleVector_move E A = Inr (A, A')
      \<and> A' = \<lparr>simple_vector_m = block, size_m = 0, capacity_m = 0\<rparr>
      \<and> GetSize A' = 0 \<and> GetCapacity A' = 0 \<and> IsEmpty A'"
  using assms
  by (simp add: SimpleVector_move_def swap_def GetSize_def GetCapacity_def IsEmpty_def
      SimpleVector_eta)

theorem move_construction_transfers_witness:
  "\<exists>A'. SimpleVector_move int_env \<lparr>simple_vector_m = [1, 2, 3, 0], size_m = 3, capacity_m = 4\<rparr>
         = Inr (\<lparr>simple_vector_m = [1, 2, 3, 0], size_m = 3, capacity_m = 4\<rparr>, A')
      \<and> GetSize A' = 0 \<and> GetCapacity A' = 0 \<and> IsEmpty A'"
  using move_construction_transfers
    [of int_env "\<lparr>simple_vector_m = [1, 2, 3, 0], size_m = 3, capacity_m = 4\<rparr>" "[0, 0, 0, 0]"]
  by (simp add: int_env_def ArrayPtr_new_def upt_rec)

subsection \<open>Copy assignment\<close>

text \<open>
  Claim C9.  Assigning an object to itself leaves the store as it was.  Assigning from
  another object first builds the local copy: if that fails, the operator is left with
  the error and the store as it was; if it succeeds, the receiver holds the copy.  No
  other object of the store is ever changed.
\<close>

theorem copy_assignment_safe:
  "operator_assign E objs this this = (objs, Inr ())
   \<and> (this \<noteq> rhs \<and> SimpleVector_copy E (objs rhs) = Inl e \<longrightarrow>
        operator_assign E objs this rhs = (objs, Inl e))
   \<and> (this \<noteq> rhs \<and> SimpleVector_copy E (objs rhs) = Inr helper \<longrightarrow>
        operator_assign E objs this rhs = (objs(this := helper), Inr ()))
   \<and> (\<forall>a. a \<noteq> this \<longrightarrow> fst (operator_assign E objs this rhs) a = objs a)"
proof -
  have self: "operator_assign E objs this this = (objs, Inr ())"
    by (simp add: operator_assign_def)
  have failed: "this \<noteq> rhs \<and> SimpleVector_copy E (objs rhs) = Inl e \<longrightarrow>
      operator_assign E objs this rhs = (objs, Inl e)"
    by (simp add: operator_assign_def)
  have copied: "this \<noteq> rhs \<and> SimpleVector_copy E (objs rhs) = Inr helper \<longrightarrow>
      operator_assign E objs this rhs = (objs(this := helper), Inr ())"
    by (simp add: operator_assign_def swap_def SimpleVector_eta)
  have others: "\<forall>a. a \<noteq> this \<longrightarrow> fst (operator_assign E objs this rhs) a = objs a"
    by (simp add: operator_assign_def split: sum.splits)
  from self failed copied others show ?thesis by blast
qed

theorem copy_assignment_safe_witness:
  "fst (operator_assign (int_env_bounded 2)
          (\<lambda>a. if a = 0 then \<lparr>simple_vector_m = [7], size_m = 1, capacity_m = 1\<rparr>
                 else \<lparr>simple_vector_m = [1, 2, 3], size_m = 3, capacity_m = 3\<rparr>) 0 1) 0
     = \<lparr>simple_vector_m = [7], size_m = 1, capacity_m = 1\<rparr>
   \<and> snd (operator_assign (int_env_bounded 2)
          (\<lambda>a. if a = 0 then \<lparr>simple_vector_m = [7], size_m = 1, capacity_m = 1\<rparr>
                 else \<lparr>simple_vector_m = [1, 2, 3], size_m = 3, capacity_m = 3\<rparr>) 0 1)
     = Inl BadAlloc
   \<and> fst (operator_assign int_env
          (\<lambda>a. if a = 0 then \<lparr>simple_vector_m = [7], size_m = 1, capacity_m = 1\<rparr>
                 else \<lparr>simple_vector_m = [1, 2, 3], size_m = 3, capacity_m = 3\<rparr>) 0 1) 0
     = \<lparr>simple_vector_m = [1, 2, 3], size_m = 3, capacity_m = 0\<rparr>"
proof -
  let ?objs = "\<lambda>a::nat. if a = 0 then \<lparr>simple_vector_m = [7::int], size_m = 1, capacity_m = 1\<rparr>
                 else \<lparr>simple_vector_m = [1, 2, 3], size_m = 3, capacity_m = 3\<rparr>"
  have f: "SimpleVector_copy (int_env_bounded 2) (?objs 1) = Inl BadAlloc"
    by code_simp
  have s: "SimpleVector_copy int_env (?objs 1)
             = Inr \<lparr>simple_vector_m = [1, 2, 3], size_m = 3, capacity_m = 0\<rparr>"
    by code_simp
  show ?thesis
    using copy_assignment_safe [of "int_env_bounded 2" ?objs 0 1 BadAlloc] f
      copy_assignment_safe [of int_env ?objs 0 1 _
        "\<lparr>simple_vector_m = [1, 2, 3], size_m = 3, capacity_m = 0\<rparr>"] s
    by simp
qed

subsection \<open>Checked access\<close>

lemma bind_e_OutOfRange:
  "bind_e m f = Inl OutOfRange \<longleftrightarrow>
     m = Inl OutOfRange \<or> (\<exists>x. m = Inr x \<and> f x = Inl OutOfRange)"
  by (cases m) auto

lemma std_fill_not_OutOfRange [simp]: "std_fill block first last' v \<noteq> Inl OutOfRange"
proof (induction block first last' v rule: std_fill.induct)
  case (1 block first last' v)
  then show ?case by (subst std_fill.simps) auto
qed

lemma Fill_loop_not_OutOfRange [simp]: "Fill_loop E block first last' \<noteq> Inl OutOfRange"
proof (induction E block first last' rule: Fill_loop.induct)
  case (1 E block first last')
  then show ?case by (subst Fill_loop.simps) auto
qed

lemma forward_loop_not_OutOfRange [simp]:
  "forward_loop after src first last' dst d_first \<noteq> Inl OutOfRange"
proof (induction after src first last' dst d_first rule: forward_loop.induct)
  case (1 after src first last' dst d_first)
  then show ?case by (subst forward_loop.simps) auto
qed

lemma forward_loop_within_not_OutOfRange [simp]:
  "forward_loop_within after block first last' d_first \<noteq> Inl OutOfRange"
proof (induction after block first last' d_first rule: forward_loop_within.induct)
  case (1 after block first last' d_first)
  then show ?case by (subst forward_loop_within.simps) auto
qed

lemma backward_loop_not_OutOfRange [simp]:
  "backward_loop after src first last' dst d_last' \<noteq> Inl OutOfRange"
proof (induction after src first last' dst d_last' rule: backward_loop.induct)
  case (1 after src first last' dst d_last')
  then show ?case by (subst backward_loop.simps) auto
qed

lemma backward_loop_within_not_OutOfRange [simp]:
  "backward_loop_within after block first last' d_last' \<noteq> Inl OutOfRange"
proof (induction after block first last' d_last' rule: backward_loop_within.induct)
  case (1 after block first last' d_last')
  then show ?case by (subst backward_loop_within.simps) auto
qed

lemma std_equal_loop_not_OutOfRange [simp]:
  "std_equal_loop xs first1 last1 ys first2 \<noteq> Inl OutOfRange"
proof (induction xs first1 last1 ys first2 rule: std_equal_loop.induct)
  case (1 xs first1 last1 ys first2)
  then show ?case by (subst std_equal_loop.simps) auto
qed

lemma std_equal_not_OutOfRange [simp]: "std_equal xs first1 last1 ys first2 \<noteq> Inl OutOfRange"
  by (simp add: std_equal_def)

lemma deref_not_OutOfRange [simp]:
  "deref block r \<noteq> Inl OutOfRange"
  "deref_released r \<noteq> Inl OutOfRange"
  by (simp_all add: deref_def deref_released_def ArrayPtr_index_def split: arg_ref.splits)

lemma std_lexicographical_compare_not_OutOfRange [simp]:
  "std_lexicographical_compare xs first1 last1 ys first2 last2 \<noteq> Inl OutOfRange"
proof (induction xs first1 last1 ys first2 last2 rule: std_lexicographical_compare.induct)
  case (1 xs first1 last1 ys first2 last2)
  then show ?case by (subst std_lexicographical_compare.simps) auto
qed

lemma ArrayPtr_not_OutOfRange [simp]:
  "ArrayPtr_new E n \<noteq> Inl OutOfRange"
  "ArrayPtr_index block i \<noteq> Inl OutOfRange"
  "ArrayPtr_assign block i x \<noteq> Inl OutOfRange"
  by (simp_all add: ArrayPtr_new_def ArrayPtr_index_def ArrayPtr_assign_def split: option.splits)

lemma std_not_OutOfRange [simp]:
  "std_copy src first last' dst d_first \<noteq> Inl OutOfRange"
  "std_copy_backward src first last' dst d_last' \<noteq> Inl OutOfRange"
  "std_move E src first last' dst d_first \<noteq> Inl OutOfRange"
  "std_move_backward E src first last' dst d_last' \<noteq> Inl OutOfRange"
  "Fill E block first last' \<noteq> Inl OutOfRange"
  by (auto simp: std_copy_def std_copy_backward_def std_move_def std_move_backward_def Fill_def
      bind_e_OutOfRange)

lemma constructors_not_OutOfRange:
  "SimpleVector_sized_value E n x \<noteq> Inl OutOfRange"
  "SimpleVector_sized E n \<noteq> Inl OutOfRange"
  "SimpleVector_init E init \<noteq> Inl OutOfRange"
  "SimpleVector_copy E v \<noteq> Inl OutOfRange"
  "SimpleVector_move E v \<noteq> Inl OutOfRange"
  "Reserve E v n \<noteq> Inl OutOfRange"
  "SimpleVector_reserved E obj \<noteq> Inl OutOfRange"
  by (auto simp: SimpleVector_sized_value_def SimpleVector_sized_def SimpleVector_init_def
      SimpleVector_copy_def SimpleVector_move_def Reserve_def SimpleVector_reserved_def
      bind_e_OutOfRange)

lemma operator_assign_not_OutOfRange:
  "snd (operator_assign E objs this rhs) \<noteq> Inl OutOfRange"
  using constructors_not_OutOfRange(4) [of E "objs rhs"]
  by (auto simp: operator_assign_def split: sum.splits)

lemma Resize_not_OutOfRange: "Resize E v n \<noteq> Inl OutOfRange"
  by (auto simp: Resize_def Let_def bind_e_OutOfRange split: if_splits)

lemma PushBack_not_OutOfRange:
  "PushBack_copy E v item \<noteq> Inl OutOfRange"
  "PushBack_move E v item \<noteq> Inl OutOfRange"
  by (auto simp: PushBack_copy_def PushBack_move_def Let_def bind_e_OutOfRange split: if_splits)

lemma Insert_copy_not_OutOfRange: "Insert_copy E v pos val \<noteq> Inl OutOfRange"
  by (auto simp: Insert_copy_def Let_def bind_e_OutOfRange split: if_splits)

lemma Insert_move_not_OutOfRange: "Insert_move E v pos val \<noteq> Inl OutOfRange"
  by (auto simp: Insert_move_def Let_def bind_e_OutOfRange split: if_splits)

lemma PopBack_Erase_not_OutOfRange:
  "PopBack v \<noteq> Inl OutOfRange"
  "Erase E v pos \<noteq> Inl OutOfRange"
  "operator_index v i \<noteq> Inl OutOfRange"
  by (auto simp: PopBack_def Erase_def operator_index_def Let_def bind_e_OutOfRange)

lemma comparisons_not_OutOfRange:
  "operator_eq lhs rhs \<noteq> Inl OutOfRange"
  "operator_ne lhs rhs \<noteq> Inl OutOfRange"
  "operator_lt l r \<noteq> Inl OutOfRange"
  "operator_le l r \<noteq> Inl OutOfRange"
  "operator_gt l r \<noteq> Inl OutOfRange"
  "operator_ge l r \<noteq> Inl OutOfRange"
  by (auto simp: operator_eq_def operator_ne_def operator_lt_def operator_le_def
      operator_gt_def operator_ge_def bind_e_OutOfRange)

text \<open>
  Claim C8.  \<open>At\<close> throws \<open>std::out_of_range\<close> exactly when \<open>index \<ge> size_\<close>; when
  \<open>index < size_\<close> it gives what \<open>operator[]\<close> gives; it leaves the object as it was,
  whether it throws or not; and no constructor, no other member function and no
  comparison operator ever throws \<open>std::out_of_range\<close>.
\<close>

theorem At_checked_access:
  "(snd (At v index) = Inl OutOfRange \<longleftrightarrow> index \<ge> GetSize v)
   \<and> (index < GetSize v \<longrightarrow> snd (At v index) = operator_index v index)
   \<and> fst (At v index) = v
   \<and> SimpleVector_sized_value E n x \<noteq> Inl OutOfRange
   \<and> SimpleVector_sized E n \<noteq> Inl OutOfRange
   \<and> SimpleVector_init E init \<noteq> Inl OutOfRange
   \<and> SimpleVector_copy E v \<noteq> Inl OutOfRange
   \<and> SimpleVector_move E v \<noteq> Inl OutOfRange
   \<and> SimpleVector_reserved E obj \<noteq> Inl OutOfRange
   \<and> snd (operator_assign E objs this rhs) \<noteq> Inl OutOfRange
   \<and> operator_index v index \<noteq> Inl OutOfRange
   \<and> Resize E v n \<noteq> Inl OutOfRange
   \<and> Reserve E v n \<noteq> Inl OutOfRange
   \<and> PushBack_copy E v item \<noteq> Inl OutOfRange
   \<and> PushBack_move E v item \<noteq> Inl OutOfRange
   \<and> Insert_copy E v pos item \<noteq> Inl OutOfRange
   \<and> Insert_move E v pos item \<noteq> Inl OutOfRange
   \<and> PopBack v \<noteq> Inl OutOfRange
   \<and> Erase E v pos \<noteq> Inl OutOfRange
   \<and> operator_eq v w \<noteq> Inl OutOfRange
   \<and> operator_ne v w \<noteq> Inl OutOfRange
   \<and> operator_lt l r \<noteq> Inl OutOfRange
   \<and> operator_le l r \<noteq> Inl OutOfRange
   \<and> operator_gt l r \<noteq> Inl OutOfRange
   \<and> operator_ge l r \<noteq> Inl OutOfRange"
proof -
  have a: "snd (At v index) = Inl OutOfRange \<longleftrightarrow> index \<ge> GetSize v"
    by (simp add: At_def GetSize_def)
  have b: "index < GetSize v \<longrightarrow> snd (At v index) = operator_index v index"
    by (simp add: At_def GetSize_def operator_index_def)
  have c: "fst (At v index) = v"
    by (simp add: At_def)
  show ?thesis
    by (intro conjI a b c constructors_not_OutOfRange operator_assign_not_OutOfRange
        Resize_not_OutOfRange PushBack_not_OutOfRange Insert_copy_not_OutOfRange
        Insert_move_not_OutOfRange PopBack_Erase_not_OutOfRange comparisons_not_OutOfRange)
qed

theorem At_checked_access_witness:
  "(1::nat) < GetSize \<lparr>simple_vector_m = [1, 2, 3::int], size_m = 3, capacity_m = 3\<rparr>
   \<and> snd (At \<lparr>simple_vector_m = [1, 2, 3::int], size_m = 3, capacity_m = 3\<rparr> 1)
       = operator_index \<lparr>simple_vector_m = [1, 2, 3], size_m = 3, capacity_m = 3\<rparr> 1
   \<and> operator_index \<lparr>simple_vector_m = [1, 2, 3::int], size_m = 3, capacity_m = 3\<rparr> 1 = Inr 2
   \<and> snd (At \<lparr>simple_vector_m = [1, 2, 3::int], size_m = 3, capacity_m = 3\<rparr> 5) = Inl OutOfRange
   \<and> fst (At \<lparr>simple_vector_m = [1, 2, 3::int], size_m = 3, capacity_m = 3\<rparr> 5)
       = \<lparr>simple_vector_m = [1, 2, 3], size_m = 3, capacity_m = 3\<rparr>"
proof -
  let ?v = "\<lparr>simple_vector_m = [1, 2, 3::int], size_m = 3, capacity_m = 3\<rparr>"
  have h: "(1::nat) < GetSize ?v" by (simp add: GetSize_def)
  have g: "(5::nat) \<ge> GetSize ?v" by (simp add: GetSize_def)
  note t1 = At_checked_access [of ?v 1]
  note t5 = At_checked_access [of ?v 5]
  have "snd (At ?v 1) = operator_index ?v 1"
    using t1 [THEN conjunct2, THEN conjunct1] h by blast
  moreover have "snd (At ?v 5) = Inl OutOfRange"
    using t5 [THEN conjunct1] g by blast
  moreover have "fst (At ?v 5) = ?v"
    using t5 [THEN conjunct2, THEN conjunct2, THEN conjunct1] .
  moreover have "operator_index ?v 1 = Inr 2"
    by (simp add: operator_index_def ArrayPtr_index_def)
  ultimately show ?thesis using h by simp
qed

subsection \<open>Where the class does not do what is said of it\<close>

text \<open>Every copy that the copy constructor completes reports capacity 0.\<close>

lemma SimpleVector_copy_counters:
  "SimpleVector_copy E other = Inr c \<Longrightarrow> capacity_m c = 0 \<and> size_m c = size_m other"
  by (auto simp: SimpleVector_copy_def bind_e_def split: sum.splits)

text \<open>
  Claim C1 says that \<open>length \<le> capacity\<close> holds after every operation, also for a copy.
  The copy constructor does not initialise \<open>capacity_\<close>: the copy of a vector built from
  the list 1, 2, 3 has length 3 and capacity 0.
\<close>

theorem copy_constructor_leaves_capacity_zero:
  "SimpleVector_init int_env [1, 2, 3]
     = Inr \<lparr>simple_vector_m = [1, 2, 3], size_m = 3, capacity_m = 3\<rparr>
   \<and> SimpleVector_copy int_env \<lparr>simple_vector_m = [1, 2, 3], size_m = 3, capacity_m = 3\<rparr>
     = Inr \<lparr>simple_vector_m = [1, 2, 3], size_m = 3, capacity_m = 0\<rparr>
   \<and> \<not> GetSize \<lparr>simple_vector_m = [1, 2, 3::int], size_m = 3, capacity_m = 0\<rparr>
       \<le> GetCapacity \<lparr>simple_vector_m = [1, 2, 3::int], size_m = 3, capacity_m = 0\<rparr>"
  by code_simp

text \<open>An empty vector on the left compares equal to every vector.\<close>

lemma operator_eq_of_empty:
  "size_m lhs = 0 \<Longrightarrow> operator_eq lhs rhs = Inr True"
  by (simp add: operator_eq_def SimpleVector_begin_def SimpleVector_end_def std_equal_def
      std_equal_loop.simps)

text \<open>
  Claim C2 says that two vectors are equal exactly when they have the same length and the
  same elements.  \<open>operator==\<close> runs \<open>std::equal\<close> over the left operand's range only:
  the vector [1] equals the vector [1, 2], \<open>operator!=\<close> denies that they differ, and
  with the operands exchanged the comparison reads past the end of the shorter block.
  \<open>operator<\<close>, which passes both ends, tells the two vectors apart.
\<close>

theorem operator_eq_ignores_length:
  "operator_eq \<lparr>simple_vector_m = [1::int], size_m = 1, capacity_m = 1\<rparr>
       \<lparr>simple_vector_m = [1, 2], size_m = 2, capacity_m = 2\<rparr> = Inr True
   \<and> operator_ne \<lparr>simple_vector_m = [1::int], size_m = 1, capacity_m = 1\<rparr>
       \<lparr>simple_vector_m = [1, 2], size_m = 2, capacity_m = 2\<rparr> = Inr False
   \<and> operator_eq \<lparr>simple_vector_m = [1, 2], size_m = 2, capacity_m = 2\<rparr>
       \<lparr>simple_vector_m = [1::int], size_m = 1, capacity_m = 1\<rparr> = Inl OutOfBounds
   \<and> operator_lt \<lparr>simple_vector_m = [1::int], size_m = 1, capacity_m = 1\<rparr>
       \<lparr>simple_vector_m = [1, 2], size_m = 2, capacity_m = 2\<rparr> = Inr True"
  by code_simp

text \<open>
  A loop that ends has stayed inside the destination block, so \<open>Insert\<close> never returns
  from its last branch: the block it fills has \<open>capacity_\<close> slots and \<open>size_ + 1\<close> are
  written.
\<close>

lemma forward_loop_Inr:
  "forward_loop after src first last' dst d_first = Inr (src', dst') \<Longrightarrow>
   length dst' = length dst \<and> (first \<noteq> last' \<longrightarrow> d_first + (last' - first) \<le> length dst)"
proof (induction after src first last' dst d_first rule: forward_loop.induct)
  case (1 after src first last' dst d_first)
  show ?case
  proof (cases "first = last'")
    case True
    with "1.prems" show ?thesis by (simp add: forward_loop.simps [of after src])
  next
    case False
    from "1.prems" False have ok: "first < length src \<and> d_first < length dst"
      by (simp add: forward_loop.simps [of after src] split: if_splits)
    with "1.prems" False have
      "forward_loop after (src[first := after (src ! first)]) (Suc first) last'
         (dst[d_first := src ! first]) (Suc d_first) = Inr (src', dst')"
      by (simp add: forward_loop.simps [of after src])
    from "1.IH" [OF False ok this] ok show ?thesis by auto
  qed
qed

lemma backward_loop_Inr:
  "backward_loop after src first last' dst d_last' = Inr (src', dst') \<Longrightarrow>
   (first = last' \<and> dst' = dst) \<or> d_last' \<le> length dst"
  by (simp add: backward_loop.simps [of after src first] split: if_splits)

lemma Insert_copy_full_never_returns:
  assumes "capacity_m v \<noteq> 0" and "\<not> size_m v < capacity_m v"
  shows "Insert_copy E v pos val \<noteq> Inr r"
proof
  assume r: "Insert_copy E v pos val = Inr r"
  from r assms obtain temp temp1 temp2 temp3 x where
    a: "ArrayPtr_new E (capacity_m v) = Inr temp"
    and c: "std_copy (simple_vector_m v) 0 (size_m v) temp 0 = Inr temp1"
    and b: "std_copy_backward (simple_vector_m v) pos (size_m v) temp1 (size_m v + 1) = Inr temp2"
    and s: "ArrayPtr_assign temp2 pos x = Inr temp3"
    and p: "pos \<le> size_m v"
    by (auto simp: Insert_copy_def Let_def bind_e_def SimpleVector_end_def
        split: if_splits sum.splits)
  from c obtain s1 where "forward_loop (\<lambda>x. x) (simple_vector_m v) 0 (size_m v) temp 0 = Inr (s1, temp1)"
    by (auto simp: std_copy_def bind_e_def split: sum.splits)
  from forward_loop_Inr [OF this] ArrayPtr_new_length [OF a]
  have l1: "length temp1 = capacity_m v" and le: "size_m v \<le> capacity_m v" by auto
  from b obtain s2 where
    "backward_loop (\<lambda>x. x) (simple_vector_m v) pos (size_m v) temp1 (size_m v + 1) = Inr (s2, temp2)"
    by (auto simp: std_copy_backward_def bind_e_def split: sum.splits)
  from backward_loop_Inr [OF this] l1 le assms(2)
  have e: "pos = size_m v \<and> temp2 = temp1" by auto
  from s have "pos < length temp2" by (simp add: ArrayPtr_assign_def split: if_splits)
  with e l1 assms(2) show False by simp
qed

lemma Insert_move_full_never_returns:
  assumes "capacity_m v \<noteq> 0" and "\<not> size_m v < capacity_m v"
  shows "Insert_move E v pos val \<noteq> Inr r"
proof
  assume r: "Insert_move E v pos val = Inr r"
  from r assms obtain temp old temp1 old1 temp2 temp3 x where
    a: "ArrayPtr_new E (capacity_m v) = Inr temp"
    and c: "std_move E (simple_vector_m v) 0 (size_m v) temp 0 = Inr (old, temp1)"
    and b: "std_move_backward E old pos (size_m v) temp1 (size_m v + 1) = Inr (old1, temp2)"
    and s: "ArrayPtr_assign temp2 pos x = Inr temp3"
    and p: "pos \<le> size_m v"
    by (auto simp: Insert_move_def Let_def bind_e_def SimpleVector_end_def
        split: if_splits sum.splits)
  from forward_loop_Inr [OF c [unfolded std_move_def]] ArrayPtr_new_length [OF a]
  have l1: "length temp1 = capacity_m v" and le: "size_m v \<le> capacity_m v" by auto
  from backward_loop_Inr [OF b [unfolded std_move_backward_def]] l1 le assms(2)
  have e: "pos = size_m v \<and> temp2 = temp1" by auto
  from s have "pos < length temp2" by (simp add: ArrayPtr_assign_def split: if_splits)
  with e l1 assms(2) show False by simp
qed

text \<open>
  Claim C3 says that \<open>Insert\<close> into a full vector grows the storage to
  \<open>max(length + 1, capacity * 2)\<close> and puts head, value and tail there.  The new block is
  allocated with the old capacity (3 slots for the vector [1, 2, 3]), so the shifted tail,
  or the value itself when the position is the end, is written behind the block.
\<close>

theorem Insert_into_full_vector_overruns:
  "Insert_copy int_env \<lparr>simple_vector_m = [1, 2, 3], size_m = 3, capacity_m = 3\<rparr> 1
       (Elsewhere 99) = Inl OutOfBounds
   \<and> Insert_move int_env \<lparr>simple_vector_m = [1, 2, 3], size_m = 3, capacity_m = 3\<rparr> 1
       (Elsewhere 99) = Inl OutOfBounds
   \<and> Insert_copy int_env \<lparr>simple_vector_m = [1, 2, 3], size_m = 3, capacity_m = 3\<rparr> 3
       (Elsewhere 99) = Inl OutOfBounds
   \<and> ArrayPtr_new int_env (capacity_m \<lparr>simple_vector_m = [1, 2, 3::int], size_m = 3, capacity_m = 3\<rparr>)
     = Inr [0, 0, 0]"
  by code_simp

text \<open>When \<open>Resize\<close> grows a vector within its capacity and returns, the length is the old one.\<close>

lemma Resize_within_capacity_counters:
  "size_m v < n \<Longrightarrow> n \<le> capacity_m v \<Longrightarrow> Resize E v n = Inr v' \<Longrightarrow>
   size_m v' = size_m v \<and> capacity_m v' = capacity_m v"
  by (auto simp: Resize_def bind_e_def split: sum.splits)

text \<open>
  Claim C4 says that \<open>Resize(new_size)\<close> with \<open>length < new_size \<le> capacity\<close> fills
  the slots from \<open>length\<close> up to \<open>new_size\<close> and sets the length to \<open>new_size\<close>.  On a
  vector of length 1 and capacity 5, \<open>Resize(3)\<close> fills the slots 1, 2 and 3 and leaves
  the length at 1.
\<close>

theorem Resize_within_capacity_keeps_length:
  "Resize int_env \<lparr>simple_vector_m = [1, 2, 3, 4, 5], size_m = 1, capacity_m = 5\<rparr> 3
     = Inr \<lparr>simple_vector_m = [1, 0, 0, 0, 5], size_m = 1, capacity_m = 5\<rparr>"
  by code_simp

text \<open>
  Claim C5 says that \<open>Resize(new_size)\<close> with \<open>new_size \<le> length\<close> only truncates the
  length.  On the vector [1, 2, 3, 4], \<open>Resize(2)\<close> also overwrites the slots 2 and 3,
  \<open>Resize(3)\<close> writes behind the block, and \<open>Resize(0)\<close> fails the assertion of \<open>Fill\<close>.
\<close>

theorem Resize_down_overwrites_tail:
  "Resize int_env \<lparr>simple_vector_m = [1, 2, 3, 4], size_m = 4, capacity_m = 4\<rparr> 2
     = Inr \<lparr>simple_vector_m = [1, 2, 0, 0], size_m = 2, capacity_m = 4\<rparr>
   \<and> Resize int_env \<lparr>simple_vector_m = [1, 2, 3, 4], size_m = 4, capacity_m = 4\<rparr> 3
     = Inl OutOfBounds
   \<and> Resize int_env \<lparr>simple_vector_m = [1, 2, 3, 4], size_m = 4, capacity_m = 4\<rparr> 0
     = Inl AssertionFailed"
  by code_simp

text \<open>
  With room left, \<open>PushBack\<close> of an element of the vector itself appends that element.
  When the storage has to grow, it never returns: the old block is released before the
  element is read.
\<close>

lemma PushBack_copy_room_own_slot:
  assumes "capacity_m v \<le> length (simple_vector_m v)" and "size_m v + 1 \<le> capacity_m v"
    and "i < length (simple_vector_m v)"
  shows "PushBack_copy E v (Own_slot i) =
           Inr \<lparr>simple_vector_m = (simple_vector_m v)[size_m v := simple_vector_m v ! i],
                size_m = size_m v + 1, capacity_m = capacity_m v\<rparr>"
  using assms by (simp add: PushBack_copy_def ArrayPtr_assign_def deref_def ArrayPtr_index_def)

lemma PushBack_grow_own_slot_never_returns:
  assumes "size_m v + 1 > capacity_m v"
  shows "PushBack_copy E v (Own_slot i) \<noteq> Inr r" and "PushBack_move E v (Own_slot i) \<noteq> Inr r"
  using assms
  by (auto simp: PushBack_copy_def PushBack_move_def Let_def bind_e_def deref_released_def
      split: sum.splits)

text \<open>
  Claim C6 says that appending one element, when \<open>length + 1 > capacity\<close>, grows the
  storage, keeps the old elements and places the value at slot \<open>length\<close>.  On the full
  vector [1, 2, 3], \<open>v.PushBack(v[0])\<close>, by copy and by transfer, reads its argument
  from the block that the growing branch has just released.  The same call with an
  object outside the block appends it, and so does the same call on a vector with room
  left.
\<close>

theorem PushBack_of_own_element_reads_released_block:
  "PushBack_copy int_env \<lparr>simple_vector_m = [1, 2, 3], size_m = 3, capacity_m = 3\<rparr> (Own_slot 0)
     = Inl UseAfterFree
   \<and> PushBack_move int_env \<lparr>simple_vector_m = [1, 2, 3], size_m = 3, capacity_m = 3\<rparr> (Own_slot 0)
     = Inl UseAfterFree
   \<and> PushBack_copy int_env \<lparr>simple_vector_m = [1, 2, 3], size_m = 3, capacity_m = 3\<rparr> (Elsewhere 1)
     = Inr \<lparr>simple_vector_m = [1, 2, 3, 1, 0, 0], size_m = 4, capacity_m = 6\<rparr>
   \<and> PushBack_copy int_env \<lparr>simple_vector_m = [1, 2, 3, 0], size_m = 3, capacity_m = 4\<rparr> (Own_slot 0)
     = Inr \<lparr>simple_vector_m = [1, 2, 3, 1], size_m = 4, capacity_m = 4\<rparr>"
  by code_simp

end
